theory Spec2Isabelle
  imports Main "HOL-Library.AList"
begin

section \<open>Python string operations used by setup\_cares.py\<close>

text \<open>
  Strings are \<open>char list\<close>. The operations below are the ones the script applies to
  command lines, captured process output and platform names: \<open>"sep".join(xs)\<close>,
  \<open>s.rstrip("\n")\<close>, \<open>s.lstrip(chars)\<close>, \<open>s.split()\<close>, \<open>s.startswith(p)\<close>,
  \<open>p in s\<close> and \<open>"%d" % n\<close>.
\<close>

definition dquote :: char where
  "dquote = CHR 0x22"

definition newline :: char where
  "newline = CHR 0x0A"

definition digit_char :: "nat \<Rightarrow> char" where
  "digit_char d = ''0123456789'' ! d"

function show_nat :: "nat \<Rightarrow> string" where
  "show_nat n = (if n < 10 then [digit_char n] else show_nat (n div 10) @ [digit_char (n mod 10)])"
  by pat_completeness auto
termination
  by (relation "measure id") auto

declare show_nat.simps [simp del]

text \<open>\<open>"%d" % returncode\<close>: decimal, with a minus sign for a negative code.\<close>

definition show_int :: "int \<Rightarrow> string" where
  "show_int i = (if i < 0 then CHR ''-'' # show_nat (nat (- i)) else show_nat (nat i))"

text \<open>\<open>sep.join(xs)\<close> on a list of strings.\<close>

fun py_join :: "string \<Rightarrow> string list \<Rightarrow> string" where
  "py_join sep [] = []"
| "py_join sep [x] = x"
| "py_join sep (x # y # ys) = x @ sep @ py_join sep (y # ys)"

text \<open>\<open>s.rstrip("\n")\<close>: every trailing newline is removed.\<close>

definition rstrip_nl :: "string \<Rightarrow> string" where
  "rstrip_nl s = rev (dropWhile (\<lambda>c. c = newline) (rev s))"

text \<open>
  \<open>s.lstrip(chars)\<close>: Python removes leading characters for as long as they belong to the
  \<^emph>\<open>set\<close> of characters of \<open>chars\<close>; it does not remove a prefix.
\<close>

definition py_lstrip :: "string \<Rightarrow> string \<Rightarrow> string" where
  "py_lstrip chars s = dropWhile (\<lambda>c. c \<in> set chars) s"

text \<open>\<open>opt[-2:]\<close>: the last two characters (the whole string when it is shorter).\<close>

definition last_two :: "string \<Rightarrow> string" where
  "last_two s = drop (length s - 2) s"

text \<open>
  \<open>s.split()\<close>: tokens separated by runs of whitespace; no empty tokens. The script runs
  on Python 2 and on Python 3. On a Python 2 \<open>str\<close> the whitespace characters are the six
  ASCII ones; on a Python 3 \<open>str\<close> they are the Unicode ones, of which 0x1C to 0x1F, 0x85
  and 0xA0 lie below 256, the range of \<open>char\<close>.
\<close>

definition is_space :: "bool \<Rightarrow> char \<Rightarrow> bool" where
  "is_space py3 c =
     (c \<in> set [CHR 0x20, CHR 0x09, CHR 0x0A, CHR 0x0D, CHR 0x0B, CHR 0x0C]
      \<or> (py3 \<and> c \<in> set [CHR 0x1C, CHR 0x1D, CHR 0x1E, CHR 0x1F, CHR 0x85, CHR 0xA0]))"

fun split_ws :: "bool \<Rightarrow> string \<Rightarrow> string \<Rightarrow> string list" where
  "split_ws py3 cur [] = (if cur = [] then [] else [cur])"
| "split_ws py3 cur (c # cs) =
     (if is_space py3 c then (if cur = [] then split_ws py3 [] cs else cur # split_ws py3 [] cs)
      else split_ws py3 (cur @ [c]) cs)"

definition py_split :: "bool \<Rightarrow> string \<Rightarrow> string list" where
  "py_split py3 s = split_ws py3 [] s"

definition startswith :: "string \<Rightarrow> string \<Rightarrow> bool" where
  "startswith s p = (take (length p) s = p)"

text \<open>\<open>p in s\<close> for strings: \<open>p\<close> occurs as a contiguous substring of \<open>s\<close>.\<close>

fun str_contains :: "string \<Rightarrow> string \<Rightarrow> bool" where
  "str_contains p [] = (p = [])"
| "str_contains p (c # cs) = (startswith (c # cs) p \<or> str_contains p cs)"

text \<open>
  \<open>os.path.join(a, b)\<close> for a relative second component, with the separator of the
  running system (\<open>os.sep\<close>).
\<close>

definition path_join :: "char \<Rightarrow> string \<Rightarrow> string \<Rightarrow> string" where
  "path_join sep a b = (if a = [] \<or> last a = sep then a @ b else a @ [sep] @ b)"


section \<open>Processes, the operating system and the event trace\<close>

text \<open>
  A command line is what the script hands to \<open>subprocess.Popen\<close>: a list of arguments
  (\<open>exec_make\<close>) or one string (\<open>'cmd.exe /C vcbuild.bat'\<close>, and every command of
  \<open>call\<close>). \<open>" ".join(cmdline)\<close> and \<open>cmdline[0]\<close> are defined on both: on a string
  they act on its characters.
\<close>

datatype cmdline = CmdList "string list" | CmdStr string

definition cmd_join :: "string \<Rightarrow> cmdline \<Rightarrow> string" where
  "cmd_join sep c = (case c of CmdList xs \<Rightarrow> py_join sep xs
                             | CmdStr s \<Rightarrow> py_join sep (map (\<lambda>ch. [ch]) s))"

definition cmd_first :: "cmdline \<Rightarrow> string option" where
  "cmd_first c = (case c of CmdList [] \<Rightarrow> None | CmdList (x # _) \<Rightarrow> Some x
                          | CmdStr [] \<Rightarrow> None | CmdStr (ch # _) \<Rightarrow> Some [ch])"

type_synonym environ = "(string \<times> string) list"

text \<open>The keyword arguments the script passes on to \<open>Popen\<close>.\<close>

record popen_kwargs =
  cwd :: "string option"
  env :: "environ option"
  shell :: bool

definition no_kwargs :: popen_kwargs where
  "no_kwargs = \<lparr>cwd = None, env = None, shell = False\<rparr>"

record popen_call =
  pc_args :: cmdline
  pc_stdin_pipe :: bool
  pc_input :: "string option"
  pc_kwargs :: popen_kwargs

text \<open>
  What running a process gives: an \<open>OSError\<close> with its errno, or the return code with
  the captured (decoded) standard output and standard error.
\<close>

datatype outcome = OSErr int | Exited int string string

definition ENOENT :: int where
  "ENOENT = 2"

datatype pyval = PStr string | PList "string list" | PInt int | PExcClass string

datatype level = Debug | Info | Warn | Error

text \<open>
  The compiler driver (\<open>self.compiler\<close>, a distutils \<open>CCompiler\<close>) is outside the
  script: each method the script calls on it is recorded with the argument it is handed.
  \<open>add_library\<close> and \<open>add_library_dir\<close> are handed a string at some call sites and a
  list at others.
\<close>

datatype compiler_call =
    DefineMacro string int
  | AddLibrary pyval
  | AddLibraryDir pyval
  | AddIncludeDir string
  | SetIncludeDirs "string list"
  | SetRuntimeLibraryDirs "string list"

text \<open>
  A log call is recorded with its format string and the values formatted into it;
  \<open>BaseBuildExtensions\<close> is the call of \<open>build_ext.build_extensions(self)\<close>, the
  standard compilation procedure.
\<close>

datatype event =
    Spawn popen_call
  | PathExists string
  | Log level string "pyval list"
  | WriteStdout string
  | WriteStderr string
  | CompilerCall compiler_call
  | BaseBuildExtensions

text \<open>
  The system the script runs on is a parameter: whether the interpreter is Python 3, the
  platform name, the path separator, the environment, and what a process or an existence
  test answers given everything that happened before (so that a build can create the
  artifact and a clean can remove it).
\<close>

record os =
  python3 :: bool
  platform :: string
  sep :: char
  environ :: environ
  popen :: "event list \<Rightarrow> popen_call \<Rightarrow> outcome"
  path_exists :: "event list \<Rightarrow> string \<Rightarrow> bool"

datatype exn =
    DistutilsError string
  | OSError int
  | SystemExit pyval
  | AssertionError
  | IndexError
  | AttributeError

definition exc_class :: "exn \<Rightarrow> string" where
  "exc_class e = (case e of DistutilsError _ \<Rightarrow> ''DistutilsError'' | OSError _ \<Rightarrow> ''OSError''
     | SystemExit _ \<Rightarrow> ''SystemExit'' | AssertionError \<Rightarrow> ''AssertionError''
     | IndexError \<Rightarrow> ''IndexError'' | AttributeError \<Rightarrow> ''AttributeError'')"

type_synonym 'a result = "(exn + 'a) \<times> event list"


section \<open>exec\_process and exec\_make\<close>

definition not_present_msg :: "string \<Rightarrow> string" where
  "not_present_msg tool = [dquote] @ tool @ [dquote] @ '' is not present on this system''"

definition return_value_msg :: "int \<Rightarrow> cmdline \<Rightarrow> string \<Rightarrow> string" where
  "return_value_msg returncode cmdline stderr =
     ''Got return value '' @ show_int returncode @ '' while executing '' @ [dquote]
       @ cmd_join '' '' cmdline @ [dquote] @ '', stderr output was:'' @ [newline]
       @ rstrip_nl stderr"

text \<open>
  \<open>exec_process\<close> (lines 12 to 36). \<open>popen sys\<close> answers for the whole \<open>try\<close> block:
  either an \<open>OSError\<close> or the return code with the two captured texts, taken as already
  decoded. Every call is recorded in the trace before its outcome is looked at.
\<close>

definition exec_process ::
  "os \<Rightarrow> cmdline \<Rightarrow> bool \<Rightarrow> bool \<Rightarrow> string option \<Rightarrow> popen_kwargs \<Rightarrow> event list
     \<Rightarrow> string result" where
  "exec_process sys cmdline silent catch_enoent input kwargs tr =
     (let c = \<lparr>pc_args = cmdline, pc_stdin_pipe = True, pc_input = input, pc_kwargs = kwargs\<rparr>;
          tr1 = tr @ [Spawn c]
      in case popen sys tr c of
           OSErr e \<Rightarrow>
             if e = ENOENT \<and> catch_enoent then
               (case cmd_first cmdline of
                  None \<Rightarrow> (Inl IndexError, tr1)
                | Some tool \<Rightarrow> (Inl (DistutilsError (not_present_msg tool)), tr1))
             else (Inl (OSError e), tr1)
         | Exited returncode stdout stderr \<Rightarrow>
             (let tr2 = (if \<not> silent then tr1 @ [WriteStdout stdout, WriteStderr stderr]
                         else tr1)
              in if returncode \<noteq> 0 then
                   (Inl (DistutilsError (return_value_msg returncode cmdline stderr)), tr2)
                 else (Inr stdout, tr2)))"

definition is_bsd :: "os \<Rightarrow> bool" where
  "is_bsd sys = str_contains ''bsd'' (platform sys)"

definition makes :: "os \<Rightarrow> string list" where
  "makes sys = (if is_bsd sys then [''gmake'', ''make''] else [''make''])"

definition plain_make_warning :: string where
  "plain_make_warning = ''Running plain make on BSD-derived system. It will likely fail. Consider installing GNU make from the ports collection.''"

text \<open>
  \<open>exec_make\<close> (lines 39 to 52). The call sites pass keyword arguments only; \<open>silent\<close>
  and \<open>input\<close> stand for what \<open>*args\<close> and \<open>**kwargs\<close> can hand on to
  \<open>exec_process\<close>. \<open>try_makes\<close> is the \<open>for make in makes\<close> loop with the \<open>raise\<close> that
  follows it.
\<close>

fun try_makes ::
  "os \<Rightarrow> string list \<Rightarrow> string list \<Rightarrow> bool \<Rightarrow> string option \<Rightarrow> popen_kwargs \<Rightarrow> event list
     \<Rightarrow> string result" where
  "try_makes sys [] cmdline silent input kwargs tr =
     (Inl (DistutilsError (not_present_msg ''make'')), tr)"
| "try_makes sys (mk # rest) cmdline silent input kwargs tr =
     (let tr1 = (if is_bsd sys \<and> mk = ''make''
                 then tr @ [Log Warn plain_make_warning []] else tr)
      in case exec_process sys (CmdList (mk # cmdline)) silent False input kwargs tr1 of
           (Inl (OSError e), tr2) \<Rightarrow>
             if e \<noteq> ENOENT then (Inl (OSError e), tr2)
             else try_makes sys rest cmdline silent input kwargs tr2
         | r \<Rightarrow> r)"

definition exec_make ::
  "os \<Rightarrow> cmdline \<Rightarrow> bool \<Rightarrow> string option \<Rightarrow> popen_kwargs \<Rightarrow> event list \<Rightarrow> string result" where
  "exec_make sys cmdline silent input kwargs tr =
     (case cmdline of
        CmdStr _ \<Rightarrow> (Inl AssertionError, tr)
      | CmdList args \<Rightarrow> try_makes sys (makes sys) args silent input kwargs tr)"


section \<open>The pkg-config helpers\<close>

record pipe =
  p_stdout :: "string list option"
  p_stderr :: "string list option"
  p_returncode :: int

definition shell_kwargs :: popen_kwargs where
  "shell_kwargs = \<lparr>cwd = None, env = None, shell = True\<rparr>"

text \<open>
  \<open>call\<close> (lines 152 to 180). \<open>Popen\<close> is called directly, through the shell, and nothing
  catches its \<open>OSError\<close>. \<open>read()\<close> never returns \<open>None\<close>, so both texts are split.
\<close>

definition call :: "os \<Rightarrow> string \<Rightarrow> string option \<Rightarrow> event list \<Rightarrow> pipe result" where
  "call sys command opt tr =
     (let c = \<lparr>pc_args = CmdStr command, pc_stdin_pipe = False, pc_input = None,
               pc_kwargs = shell_kwargs\<rparr>;
          tr1 = tr @ [Spawn c]
      in case popen sys tr c of
           OSErr e \<Rightarrow> (Inl (OSError e), tr1)
         | Exited returncode out err \<Rightarrow>
             (let stdout = (case opt of None \<Rightarrow> py_split (python3 sys) out
                            | Some chars \<Rightarrow> map (py_lstrip chars) (py_split (python3 sys) out));
                  stderr = py_split (python3 sys) err;
                  tr2 = tr1 @ [Log Debug ''%s - stdout: %s'' [PStr command, PList stdout],
                               Log Debug ''%s - stderr: %s'' [PStr command, PList stderr]]
              in if returncode \<noteq> 0 then
                   (Inl (SystemExit (PList stderr)),
                    tr2 @ [Log Debug ''%s - returncode: %i'' [PStr command, PInt returncode]])
                 else
                   (Inr \<lparr>p_stdout = Some stdout, p_stderr = Some stderr,
                         p_returncode = returncode\<rparr>, tr2)))"

definition version_check_command :: "string \<Rightarrow> string \<Rightarrow> string" where
  "version_check_command pkg version =
     ''pkg-config --print-errors --exists '' @ [dquote] @ pkg @ '' >= '' @ version @ [dquote]"

definition version_not_found_msg :: "string \<Rightarrow> string \<Rightarrow> string" where
  "version_not_found_msg pkg version = ''Error: '' @ pkg @ '' >= '' @ version @ '' not found''"

text \<open>The bare \<open>except:\<close> catches whatever \<open>call\<close> raises.\<close>

definition pkg_config_version_check :: "os \<Rightarrow> string \<Rightarrow> string \<Rightarrow> event list \<Rightarrow> unit result" where
  "pkg_config_version_check sys pkg version tr =
     (case call sys (version_check_command pkg version) None tr of
        (Inl e, tr1) \<Rightarrow>
          (Inl (SystemExit (PStr (version_not_found_msg pkg version))),
           tr1 @ [Log Error ''%s'' [PExcClass (exc_class e)]])
      | (Inr _, tr1) \<Rightarrow>
          (Inr (), tr1 @ [Log Debug ''%s >= %s detected'' [PStr pkg, PStr version]]))"

definition pkg_config_parse :: "os \<Rightarrow> string \<Rightarrow> string \<Rightarrow> event list \<Rightarrow> string list result" where
  "pkg_config_parse sys opt pkg tr =
     (case call sys (''pkg-config '' @ opt @ '' '' @ pkg) (Some (last_two opt)) tr of
        (Inl e, tr1) \<Rightarrow> (Inl e, tr1)
      | (Inr p, tr1) \<Rightarrow> (case p_stdout p of Some toks \<Rightarrow> (Inr toks, tr1) | None \<Rightarrow> (Inr [], tr1)))"


section \<open>The build command\<close>

record ccompiler =
  compiler_type :: string
  dll_libraries :: "string list"

record extension =
  extra_objects :: "string list"
  extra_link_args :: "string list"

record cares_build_ext =
  cares_clean_compile :: int
  use_system_libcares :: int
  libcares_version_required :: string
  force :: int
  cares_lib :: "string option"
  compiler :: ccompiler
  extensions :: "extension list"

definition cares_dir :: "os \<Rightarrow> string" where
  "cares_dir sys = path_join (sep sys) ''deps'' ''c-ares''"

text \<open>
  Sequencing: an exception ends the computation and keeps the trace reached so far.
\<close>

definition and_then :: "'a result \<Rightarrow> ('a \<Rightarrow> event list \<Rightarrow> 'b result) \<Rightarrow> 'b result" where
  "and_then r f = (case r of (Inl e, tr) \<Rightarrow> (Inl e, tr) | (Inr x, tr) \<Rightarrow> f x tr)"

definition discard :: "'a result \<Rightarrow> unit result" where
  "discard r = (case r of (Inl e, tr) \<Rightarrow> (Inl e, tr) | (Inr _, tr) \<Rightarrow> (Inr (), tr))"

text \<open>
  \<open>' '.join(x for x in (cflags, env.get('CFLAGS', None)) if x)\<close>: \<open>None\<close> and the empty
  string are both dropped by the \<open>if x\<close>.
\<close>

definition truthy :: "string option list \<Rightarrow> string list" where
  "truthy xs = concat (map (\<lambda>x. case x of None \<Rightarrow> [] | Some s \<Rightarrow> (if s = [] then [] else [s])) xs)"

definition build_env :: "os \<Rightarrow> environ" where
  "build_env sys =
     (let cflags = ''-fPIC''; e = environ sys
      in AList.update ''CFLAGS'' (py_join '' '' (truthy [Some cflags, map_of e ''CFLAGS''])) e)"

text \<open>\<open>build_cares\<close> (lines 124 to 149) with its two local functions.\<close>

definition build :: "os \<Rightarrow> bool \<Rightarrow> event list \<Rightarrow> unit result" where
  "build sys win32_msvc tr =
     (let e = build_env sys;
          tr1 = tr @ [Log Info ''Building c-ares...'' []]
      in if win32_msvc then
           discard (exec_process sys (CmdStr ''cmd.exe /C vcbuild.bat'') True True None
                      \<lparr>cwd = Some (cares_dir sys), env = Some e, shell = True\<rparr> tr1)
         else
           discard (exec_make sys (CmdList [''libcares.a'']) True None
                      \<lparr>cwd = Some (cares_dir sys), env = Some e, shell = False\<rparr> tr1))"

definition clean :: "os \<Rightarrow> bool \<Rightarrow> event list \<Rightarrow> unit result" where
  "clean sys win32_msvc tr =
     (if win32_msvc then
        discard (exec_process sys (CmdStr ''cmd.exe /C vcbuild.bat clean'') True True None
                   \<lparr>cwd = Some (cares_dir sys), env = None, shell = True\<rparr> tr)
      else
        discard (exec_make sys (CmdList [''clean'']) True None
                   \<lparr>cwd = Some (cares_dir sys), env = None, shell = False\<rparr> tr))"

definition build_cares :: "os \<Rightarrow> cares_build_ext \<Rightarrow> event list \<Rightarrow> unit result" where
  "build_cares sys self tr =
     (let win32_msvc = (compiler_type (compiler self) = ''msvc'')
      in and_then (if cares_clean_compile self \<noteq> 0 then clean sys win32_msvc tr
                   else (Inr (), tr))
           (\<lambda>_ tr1.
              case cares_lib self of
                None \<Rightarrow> (Inl AttributeError, tr1)
              | Some lib \<Rightarrow>
                  if \<not> path_exists sys tr1 lib then
                    build sys win32_msvc
                      (tr1 @ [PathExists lib, Log Info ''c-ares needs to be compiled.'' []])
                  else
                    (Inr (), tr1 @ [PathExists lib, Log Info ''No need to build c-ares.'' []])))"

text \<open>Lines 75 to 92 of \<open>build_extensions\<close>: the system-library branch.\<close>

definition system_libcares :: "os \<Rightarrow> cares_build_ext \<Rightarrow> event list \<Rightarrow> unit result" where
  "system_libcares sys self tr =
     and_then (pkg_config_version_check sys ''libcares'' (libcares_version_required self) tr)
       (\<lambda>_ tr.
     and_then (pkg_config_parse sys ''--libs-only-L'' ''libcares'' tr)
       (\<lambda>runtime_library_dirs tr.
     and_then (pkg_config_parse sys ''--cflags-only-I'' ''libcares'' tr)
       (\<lambda>include_dirs0 tr.
     and_then (pkg_config_parse sys ''--libs-only-L'' ''libcares'' tr)
       (\<lambda>library_dirs tr.
     and_then (pkg_config_parse sys ''--libs-only-l'' ''libcares'' tr)
       (\<lambda>libraries tr.
          (let include_dirs = include_dirs0 @ [''/usr/include'']
                                @ [path_join (sep sys) (cares_dir sys) ''src''];
               tr1 = tr @ [Log Debug ''%s'' [PList libraries]];
               tr2 = (if length libraries > 0
                      then tr1 @ [CompilerCall (AddLibrary (PList libraries))] else tr1);
               tr3 = (if length library_dirs > 0
                      then tr2 @ [CompilerCall (AddLibraryDir (PList library_dirs))] else tr2);
               tr4 = (if length include_dirs > 0
                      then tr3 @ [CompilerCall (SetIncludeDirs include_dirs)] else tr3);
               tr5 = (if length runtime_library_dirs > 0
                      then tr4 @ [CompilerCall (SetRuntimeLibraryDirs runtime_library_dirs)]
                      else tr4)
           in (Inr (), tr5)))))))"

text \<open>Lines 113 to 121: the libraries of the platform, and the link arguments under MSVC.\<close>

definition platform_libs ::
  "os \<Rightarrow> cares_build_ext \<Rightarrow> event list \<Rightarrow> (exn + unit) \<times> cares_build_ext \<times> event list" where
  "platform_libs sys self tr =
     (if startswith (platform sys) ''linux'' then
        (Inr (), self, tr @ [CompilerCall (AddLibrary (PStr ''rt''))])
      else if platform sys = ''win32'' then
        (let win_libs = [CompilerCall (AddLibrary (PStr ''iphlpapi'')),
                         CompilerCall (AddLibrary (PStr ''psapi'')),
                         CompilerCall (AddLibrary (PStr ''ws2_32''))]
         in if compiler_type (compiler self) = ''msvc'' then
              (case extensions self of
                 [] \<Rightarrow> (Inl IndexError, self, tr)
               | ext # exts \<Rightarrow>
                   (Inr (),
                    self\<lparr>extensions := ext\<lparr>extra_link_args := [''/NODEFAULTLIB:libcmt'']\<rparr> # exts\<rparr>,
                    tr @ [CompilerCall (AddLibrary (PStr ''advapi32''))] @ win_libs))
            else (Inr (), self, tr @ win_libs))
      else (Inr (), self, tr))"

text \<open>
  \<open>build_extensions\<close> (lines 73 to 122). The attributes of \<open>self\<close> that were assigned
  before an exception stay assigned. The standard procedure itself is outside the script:
  its call is the last event of a run without exception.
\<close>

definition build_extensions ::
  "os \<Rightarrow> cares_build_ext \<Rightarrow> event list \<Rightarrow> (exn + unit) \<times> cares_build_ext \<times> event list" where
  "build_extensions sys self tr =
     (case (if use_system_libcares self = 1 then system_libcares sys self tr else (Inr (), tr)) of
        (Inl e, tr1) \<Rightarrow> (Inl e, self, tr1)
      | (Inr _, tr1) \<Rightarrow>
          (let tr2 = (if use_system_libcares self = 0
                      then tr1 @ [CompilerCall (DefineMacro ''PYCARES_BUNDLED'' 1)] else tr1);
               mingw32 = (compiler_type (compiler self) = ''mingw32'');
               self1 = (if mingw32 then
                          self\<lparr>compiler := (compiler self)\<lparr>dll_libraries :=
                            filter (\<lambda>lib. \<not> startswith lib ''msvcr'')
                              (dll_libraries (compiler self))\<rparr>\<rparr>
                        else self);
               self2 = self1\<lparr>force := cares_clean_compile self1\<rparr>;
               lib = (if compiler_type (compiler self2) = ''msvc''
                      then path_join (sep sys) (cares_dir sys) ''cares.lib''
                      else path_join (sep sys) (cares_dir sys) ''libcares.a'');
               self3 = self2\<lparr>cares_lib := Some lib\<rparr>
           in case (if use_system_libcares self3 = 0 then build_cares sys self3 tr2
                    else (Inr (), tr2)) of
                (Inl e, tr3) \<Rightarrow> (Inl e, self3, tr3)
              | (Inr _, tr3) \<Rightarrow>
                  (let tr4 = (if mingw32
                              then tr3 @ [CompilerCall (AddLibraryDir (PStr (cares_dir sys))),
                                          CompilerCall (AddLibrary (PStr ''cares''))]
                              else tr3)
                   in case extensions self3 of
                        [] \<Rightarrow> (Inl IndexError, self3, tr4)
                      | ext # exts \<Rightarrow>
                          (let self4 = self3\<lparr>extensions := ext\<lparr>extra_objects := [lib]\<rparr> # exts\<rparr>;
                               tr5 = tr4 @ [CompilerCall
                                              (AddIncludeDir (path_join (sep sys) (cares_dir sys) ''src''))]
                           in case platform_libs sys self4 tr5 of
                                (Inl e, self5, tr6) \<Rightarrow> (Inl e, self5, tr6)
                              | (Inr _, self5, tr6) \<Rightarrow>
                                  (Inr (), self5, tr6 @ [BaseBuildExtensions])))))"


section \<open>Observations on traces and sample systems\<close>

text \<open>The \<open>Popen\<close> calls along a trace, in order, and their command lines.\<close>

definition spawns :: "event list \<Rightarrow> popen_call list" where
  "spawns tr = concat (map (\<lambda>e. case e of Spawn c \<Rightarrow> [c] | _ \<Rightarrow> []) tr)"

definition spawned :: "event list \<Rightarrow> cmdline list" where
  "spawned tr = map pc_args (spawns tr)"

text \<open>The methods called on the compiler driver along a trace, in order.\<close>

definition compiler_calls :: "event list \<Rightarrow> compiler_call list" where
  "compiler_calls tr = concat (map (\<lambda>e. case e of CompilerCall c \<Rightarrow> [c] | _ \<Rightarrow> []) tr)"

text \<open>The \<open>Popen\<close> call that \<open>exec_process([mk] + args, **kwargs)\<close> makes.\<close>

definition make_call :: "string \<Rightarrow> string list \<Rightarrow> string option \<Rightarrow> popen_kwargs \<Rightarrow> popen_call" where
  "make_call mk args input kwargs =
     \<lparr>pc_args = CmdList (mk # args), pc_stdin_pipe = True, pc_input = input, pc_kwargs = kwargs\<rparr>"

text \<open>The last round of the loop of \<open>exec_make\<close>: plain \<open>make\<close>, then the final \<open>raise\<close>.\<close>

definition last_make ::
  "os \<Rightarrow> string list \<Rightarrow> bool \<Rightarrow> string option \<Rightarrow> popen_kwargs \<Rightarrow> event list \<Rightarrow> string result" where
  "last_make sys args silent input kwargs tr =
     (if popen sys tr (make_call ''make'' args input kwargs) = OSErr ENOENT then
        (Inl (DistutilsError (not_present_msg ''make'')),
         tr @ [Spawn (make_call ''make'' args input kwargs)])
      else exec_process sys (CmdList (''make'' # args)) silent False input kwargs tr)"

text \<open>A Linux system on which every command fails with code 2 and nothing exists.\<close>

definition sys_failing :: os where
  "sys_failing =
     \<lparr>python3 = True, platform = ''linux'', sep = CHR ''/'', environ = [(''HOME'', ''/root''), (''CFLAGS'', ''-O2'')],
      popen = (\<lambda>tr c. Exited 2 ''building'' (''no rule to make target'' @ [newline, newline])),
      path_exists = (\<lambda>tr p. False)\<rparr>"

text \<open>A Linux system on which every command succeeds and every path exists.\<close>

definition sys_prebuilt :: os where
  "sys_prebuilt =
     \<lparr>python3 = True, platform = ''linux'', sep = CHR ''/'', environ = [],
      popen = (\<lambda>tr c. Exited 0 ''done'' []),
      path_exists = (\<lambda>tr p. True)\<rparr>"

text \<open>A BSD system without GNU make (\<open>have_gmake = False\<close>) or with it.\<close>

definition sys_bsd :: "bool \<Rightarrow> os" where
  "sys_bsd have_gmake =
     \<lparr>python3 = True, platform = ''freebsd11'', sep = CHR ''/'', environ = [],
      popen = (\<lambda>tr c. if \<not> have_gmake \<and> cmd_first (pc_args c) = Some ''gmake''
                       then OSErr ENOENT else Exited 0 [] []),
      path_exists = (\<lambda>tr p. True)\<rparr>"

text \<open>A system on which every \<open>Popen\<close> raises \<open>OSError(ENOENT)\<close>.\<close>

definition sys_no_tools :: os where
  "sys_no_tools =
     \<lparr>python3 = True, platform = ''linux'', sep = CHR ''/'', environ = [],
      popen = (\<lambda>tr c. OSErr ENOENT),
      path_exists = (\<lambda>tr p. False)\<rparr>"

text \<open>
  A system with libcares installed at a given version (\<open>[1, 10]\<close> for 1.10). Its
  pkg-config compares that version with the required 1.11, component by component, and
  prints the given text for each of the three flag queries.
\<close>

fun version_ge :: "nat list \<Rightarrow> nat list \<Rightarrow> bool" where
  "version_ge [] [] = True"
| "version_ge [] (y # ys) = False"
| "version_ge (x # xs) [] = True"
| "version_ge (x # xs) (y # ys) = (y < x \<or> (x = y \<and> version_ge xs ys))"

definition sys_pkg_config :: "nat list \<Rightarrow> string \<Rightarrow> string \<Rightarrow> string \<Rightarrow> os" where
  "sys_pkg_config installed libs_L cflags_I libs_l =
     \<lparr>python3 = True, platform = ''linux'', sep = CHR ''/'', environ = [],
      popen = (\<lambda>tr c.
        if pc_args c = CmdStr (version_check_command ''libcares'' ''1.11'') then
          (if version_ge installed [1, 11] then Exited 0 [] []
           else Exited 1 [] (''Requested libcares >= 1.11 but version of libcares is 1.10'' @ [newline]))
        else if pc_args c = CmdStr ''pkg-config --libs-only-L libcares'' then Exited 0 libs_L []
        else if pc_args c = CmdStr ''pkg-config --cflags-only-I libcares'' then Exited 0 cflags_I []
        else if pc_args c = CmdStr ''pkg-config --libs-only-l libcares'' then Exited 0 libs_l []
        else Exited 127 [] ''command not found''),
      path_exists = (\<lambda>tr p. True)\<rparr>"

text \<open>
  pkg-config accepts the version and prints one directory for \<open>-L\<close> and \<open>-I\<close>, and two
  library names, the second of which begins with the letter of the option.
\<close>

definition sys_lber :: os where
  "sys_lber = sys_pkg_config [1, 12] (''-L/usr/lib'' @ [newline]) (''-I/usr/include/cares'' @ [newline])
                (''-lcares -llber'' @ [newline])"

definition unix_compiler :: ccompiler where
  "unix_compiler = \<lparr>compiler_type = ''unix'', dll_libraries = []\<rparr>"

definition one_extension :: "extension list" where
  "one_extension = [\<lparr>extra_objects = [], extra_link_args = []\<rparr>]"

definition bundled_self :: "int \<Rightarrow> cares_build_ext" where
  "bundled_self clean_flag =
     \<lparr>cares_clean_compile = clean_flag, use_system_libcares = 0,
      libcares_version_required = ''1.11'', force = 0,
      cares_lib = Some ''deps/c-ares/libcares.a'', compiler = unix_compiler,
      extensions = one_extension\<rparr>"

text \<open>A Windows system without the artifact, on which \<open>vcbuild.bat\<close> fails with code 1.\<close>

definition sys_vcbuild_fails :: os where
  "sys_vcbuild_fails =
     \<lparr>python3 = True, platform = ''win32'', sep = CHR 0x5C, environ = [],
      popen = (\<lambda>tr c. Exited 1 [] (''vcbuild failed'' @ [newline])),
      path_exists = (\<lambda>tr p. False)\<rparr>"

text \<open>A Windows system with the artifact already built.\<close>

definition sys_win32 :: os where
  "sys_win32 =
     \<lparr>python3 = True, platform = ''win32'', sep = CHR 0x5C, environ = [],
      popen = (\<lambda>tr c. Exited 0 [] []),
      path_exists = (\<lambda>tr p. True)\<rparr>"

definition windows_self :: "string \<Rightarrow> cares_build_ext" where
  "windows_self ctype =
     \<lparr>cares_clean_compile = 0, use_system_libcares = 0,
      libcares_version_required = ''1.11'', force = 0, cares_lib = None,
      compiler = \<lparr>compiler_type = ctype,
                   dll_libraries = [''msvcr90'', ''kernel32'', ''msvcrt'', ''user32'']\<rparr>,
      extensions = one_extension\<rparr>"

definition system_self :: cares_build_ext where
  "system_self =
     \<lparr>cares_clean_compile = 0, use_system_libcares = 1,
      libcares_version_required = ''1.11'', force = 0,
      cares_lib = None, compiler = unix_compiler, extensions = one_extension\<rparr>"


section \<open>Properties of the string operations\<close>

lemma rstrip_nl_decomp: "\<exists>n. s = rstrip_nl s @ replicate n newline"
proof -
  have "rev s = takeWhile (\<lambda>c. c = newline) (rev s) @ dropWhile (\<lambda>c. c = newline) (rev s)"
    by simp
  then have "s = rev (dropWhile (\<lambda>c. c = newline) (rev s))
                  @ rev (takeWhile (\<lambda>c. c = newline) (rev s))"
    by (metis rev_append rev_rev_ident)
  moreover have "\<exists>n. rev (takeWhile (\<lambda>c. c = newline) (rev s)) = replicate n newline"
    by (metis (mono_tags, lifting) replicate_length_same set_rev set_takeWhileD)
  ultimately show ?thesis unfolding rstrip_nl_def by metis
qed

lemma rstrip_nl_last: "rstrip_nl s \<noteq> [] \<Longrightarrow> last (rstrip_nl s) \<noteq> newline"
  unfolding rstrip_nl_def
  by (metis (mono_tags, lifting) hd_dropWhile last_rev rev_is_Nil_conv rev_rev_ident)

lemma spawns_append: "spawns (xs @ ys) = spawns xs @ spawns ys"
  by (simp add: spawns_def)

lemma spawns_simps:
  "spawns [] = []"
  "spawns (Spawn c # tr) = c # spawns tr"
  "spawns (Log l f a # tr) = spawns tr"
  "spawns (PathExists p # tr) = spawns tr"
  "spawns (WriteStdout s # tr) = spawns tr"
  "spawns (WriteStderr s # tr) = spawns tr"
  "spawns (CompilerCall cc # tr) = spawns tr"
  "spawns (BaseBuildExtensions # tr) = spawns tr"
  by (simp_all add: spawns_def)

lemma spawned_append: "spawned (xs @ ys) = spawned xs @ spawned ys"
  by (simp add: spawned_def spawns_append)

lemma spawned_simps:
  "spawned [] = []"
  "spawned (Spawn c # tr) = pc_args c # spawned tr"
  "spawned (Log l f a # tr) = spawned tr"
  "spawned (PathExists p # tr) = spawned tr"
  "spawned (WriteStdout s # tr) = spawned tr"
  "spawned (WriteStderr s # tr) = spawned tr"
  "spawned (CompilerCall cc # tr) = spawned tr"
  "spawned (BaseBuildExtensions # tr) = spawned tr"
  by (simp_all add: spawned_def spawns_simps)


section \<open>exec\_process\<close>

lemma spawns_exec_process:
  "spawns (snd (exec_process sys c silent ce input kwargs tr)) =
     spawns tr @ [\<lparr>pc_args = c, pc_stdin_pipe = True, pc_input = input, pc_kwargs = kwargs\<rparr>]"
  by (simp add: exec_process_def Let_def spawns_append spawns_simps
        split: outcome.splits option.splits)

lemma spawned_exec_process:
  "spawned (snd (exec_process sys c silent ce input kwargs tr)) = spawned tr @ [c]"
  by (simp add: spawned_def spawns_exec_process)

text \<open>
  What \<open>exec_process\<close> does with a return code: a nonzero code raises
  \<open>DistutilsError\<close> with \<open>Got return value <code> while executing "<" ".join(cmdline)>",
  stderr output was:\<close>, a newline, and the captured standard error without its trailing
  newlines; a zero code returns the captured standard output.
\<close>

lemma exec_process_result:
  assumes "popen sys tr \<lparr>pc_args = cmdline, pc_stdin_pipe = True, pc_input = input,
                           pc_kwargs = kwargs\<rparr> = Exited returncode stdout stderr"
  shows "fst (exec_process sys cmdline silent catch_enoent input kwargs tr) =
           (if returncode \<noteq> 0 then
              Inl (DistutilsError
                (''Got return value '' @ show_int returncode @ '' while executing '' @ [dquote]
                   @ cmd_join '' '' cmdline @ [dquote] @ '', stderr output was:'' @ [newline]
                   @ rstrip_nl stderr))
            else Inr stdout)"
  using assms by (simp add: exec_process_def return_value_msg_def Let_def)

text \<open>For a command line given as a list the message holds its arguments joined by spaces.\<close>

lemma exec_process_list_example:
  "fst (exec_process sys_failing (CmdList [''make'', ''libcares.a'']) True True None no_kwargs []) =
     Inl (DistutilsError
       (''Got return value 2 while executing '' @ [dquote] @ ''make libcares.a'' @ [dquote]
          @ '', stderr output was:'' @ [newline] @ ''no rule to make target''))
   \<and> fst (exec_process sys_prebuilt (CmdList [''make'', ''libcares.a'']) True True None no_kwargs [])
       = Inr ''done''"
  by (simp add: exec_process_def return_value_msg_def sys_failing_def sys_prebuilt_def show_int_def
        show_nat.simps digit_char_def cmd_join_def rstrip_nl_def newline_def)

text \<open>
  C1 at the call site of line 134. Under MSVC \<open>build\<close> hands \<open>exec_process\<close> the command
  line as one string, \<open>'cmd.exe /C vcbuild.bat'\<close>. When the command returns 1,
  \<open>" ".join(cmdline)\<close> joins the characters of that string, so the message of the
  \<open>DistutilsError\<close> reads \<open>c m d . e x e   / C   v c b u i l d . b a t\<close> and the command
  line itself does not occur in it.
\<close>

theorem vcbuild_failure_message:
  "fst (build sys_vcbuild_fails True []) =
     Inl (DistutilsError
       (''Got return value 1 while executing '' @ [dquote]
          @ ''c m d . e x e   / C   v c b u i l d . b a t'' @ [dquote]
          @ '', stderr output was:'' @ [newline] @ ''vcbuild failed''))
   \<and> \<not> str_contains ''cmd.exe /C vcbuild.bat''
         (''Got return value 1 while executing '' @ [dquote]
            @ ''c m d . e x e   / C   v c b u i l d . b a t'' @ [dquote]
            @ '', stderr output was:'' @ [newline] @ ''vcbuild failed'')"
  by (simp add: build_def discard_def exec_process_def return_value_msg_def sys_vcbuild_fails_def
        show_int_def show_nat.simps digit_char_def cmd_join_def rstrip_nl_def newline_def
        dquote_def startswith_def)


section \<open>exec\_make\<close>

lemma try_makes_step_found:
  assumes "popen sys tr1 (make_call mk args input kwargs) \<noteq> OSErr ENOENT"
    and "tr1 = (if is_bsd sys \<and> mk = ''make'' then tr @ [Log Warn plain_make_warning []] else tr)"
  shows "try_makes sys (mk # rest) args silent input kwargs tr =
           exec_process sys (CmdList (mk # args)) silent False input kwargs tr1"
  using assms
  by (auto simp add: make_call_def exec_process_def Let_def split: outcome.splits option.splits)

lemma try_makes_step_missing:
  assumes "popen sys tr1 (make_call mk args input kwargs) = OSErr ENOENT"
    and "tr1 = (if is_bsd sys \<and> mk = ''make'' then tr @ [Log Warn plain_make_warning []] else tr)"
  shows "try_makes sys (mk # rest) args silent input kwargs tr =
           try_makes sys rest args silent input kwargs
             (tr1 @ [Spawn (make_call mk args input kwargs)])"
  using assms
  by (auto simp add: make_call_def exec_process_def Let_def split: outcome.splits option.splits)

lemma try_makes_nil:
  "try_makes sys [] args silent input kwargs tr =
     (Inl (DistutilsError (not_present_msg ''make'')), tr)"
  by simp

declare try_makes.simps [simp del]

lemma try_makes_last_bsd:
  assumes "is_bsd sys"
  shows "try_makes sys [''make''] args silent input kwargs tr =
           last_make sys args silent input kwargs (tr @ [Log Warn plain_make_warning []])"
proof (cases "popen sys (tr @ [Log Warn plain_make_warning []]) (make_call ''make'' args input kwargs)
                = OSErr ENOENT")
  case True
  have "try_makes sys [''make''] args silent input kwargs tr =
          try_makes sys [] args silent input kwargs
            ((tr @ [Log Warn plain_make_warning []]) @ [Spawn (make_call ''make'' args input kwargs)])"
    by (rule try_makes_step_missing [OF True]) (simp add: assms)
  with True show ?thesis by (simp add: last_make_def try_makes_nil)
next
  case False
  have "try_makes sys [''make''] args silent input kwargs tr =
          exec_process sys (CmdList (''make'' # args)) silent False input kwargs
            (tr @ [Log Warn plain_make_warning []])"
    by (rule try_makes_step_found [OF False]) (simp add: assms)
  with False show ?thesis by (simp add: last_make_def)
qed

lemma try_makes_last_other:
  assumes "\<not> is_bsd sys"
  shows "try_makes sys [''make''] args silent input kwargs tr =
           last_make sys args silent input kwargs tr"
proof (cases "popen sys tr (make_call ''make'' args input kwargs) = OSErr ENOENT")
  case True
  have "try_makes sys [''make''] args silent input kwargs tr =
          try_makes sys [] args silent input kwargs
            (tr @ [Spawn (make_call ''make'' args input kwargs)])"
    by (rule try_makes_step_missing [OF True]) (simp add: assms)
  with True show ?thesis by (simp add: last_make_def try_makes_nil)
next
  case False
  have "try_makes sys [''make''] args silent input kwargs tr =
          exec_process sys (CmdList (''make'' # args)) silent False input kwargs tr"
    by (rule try_makes_step_found [OF False]) (simp add: assms)
  with False show ?thesis by (simp add: last_make_def)
qed

text \<open>The loop of \<open>exec_make\<close>, unrolled over its one or two candidates.\<close>

lemma exec_make_unfold:
  "exec_make sys (CmdList args) silent input kwargs tr =
     (if is_bsd sys then
        (if popen sys tr (make_call ''gmake'' args input kwargs) = OSErr ENOENT then
           last_make sys args silent input kwargs
             (tr @ [Spawn (make_call ''gmake'' args input kwargs), Log Warn plain_make_warning []])
         else exec_process sys (CmdList (''gmake'' # args)) silent False input kwargs tr)
      else last_make sys args silent input kwargs tr)"
proof (cases "is_bsd sys")
  case bsd: True
  show ?thesis
  proof (cases "popen sys tr (make_call ''gmake'' args input kwargs) = OSErr ENOENT")
    case True
    have "try_makes sys [''gmake'', ''make''] args silent input kwargs tr =
            try_makes sys [''make''] args silent input kwargs
              (tr @ [Spawn (make_call ''gmake'' args input kwargs)])"
      by (rule try_makes_step_missing [OF True]) simp
    with bsd True show ?thesis
      by (simp add: exec_make_def makes_def try_makes_last_bsd)
  next
    case False
    have "try_makes sys [''gmake'', ''make''] args silent input kwargs tr =
            exec_process sys (CmdList (''gmake'' # args)) silent False input kwargs tr"
      by (rule try_makes_step_found [OF False]) simp
    with bsd False show ?thesis by (simp add: exec_make_def makes_def)
  qed
next
  case False
  then show ?thesis by (simp add: exec_make_def makes_def try_makes_last_other)
qed

lemma spawns_last_make:
  "spawns (snd (last_make sys args silent input kwargs tr)) =
     spawns tr @ [make_call ''make'' args input kwargs]"
  by (simp add: last_make_def spawns_exec_process spawns_append spawns_simps make_call_def)

lemma spawns_exec_make:
  "spawns (snd (exec_make sys (CmdList args) silent input kwargs tr)) =
     spawns tr @ map (\<lambda>mk. make_call mk args input kwargs)
       (if is_bsd sys then
          (if popen sys tr (make_call ''gmake'' args input kwargs) = OSErr ENOENT
           then [''gmake'', ''make''] else [''gmake''])
        else [''make''])"
  by (simp add: exec_make_unfold spawns_last_make spawns_exec_process spawns_append spawns_simps
        make_call_def)


section \<open>Candidates of exec\_make\<close>

text \<open>
  C6. On a platform whose name contains \<open>bsd\<close> the candidates are \<open>gmake\<close>, then
  \<open>make\<close>: \<open>gmake\<close> is always attempted first, \<open>make\<close> is attempted only when \<open>gmake\<close>
  is reported missing (ENOENT), and the first candidate that is not missing is the one
  whose run is the result. On any other platform only \<open>make\<close> is attempted.
\<close>

theorem exec_make_candidates:
  "makes sys = (if is_bsd sys then [''gmake'', ''make''] else [''make''])
   \<and> spawned (snd (exec_make sys (CmdList args) silent input kwargs tr)) =
       spawned tr @
         (if is_bsd sys then
            (if popen sys tr (make_call ''gmake'' args input kwargs) = OSErr ENOENT
             then [CmdList (''gmake'' # args), CmdList (''make'' # args)]
             else [CmdList (''gmake'' # args)])
          else [CmdList (''make'' # args)])
   \<and> (is_bsd sys \<and> popen sys tr (make_call ''gmake'' args input kwargs) \<noteq> OSErr ENOENT \<longrightarrow>
         exec_make sys (CmdList args) silent input kwargs tr =
           exec_process sys (CmdList (''gmake'' # args)) silent False input kwargs tr)
   \<and> (is_bsd sys \<and> popen sys tr (make_call ''gmake'' args input kwargs) = OSErr ENOENT
         \<and> popen sys (tr @ [Spawn (make_call ''gmake'' args input kwargs),
                              Log Warn plain_make_warning []])
              (make_call ''make'' args input kwargs) \<noteq> OSErr ENOENT \<longrightarrow>
         exec_make sys (CmdList args) silent input kwargs tr =
           exec_process sys (CmdList (''make'' # args)) silent False input kwargs
             (tr @ [Spawn (make_call ''gmake'' args input kwargs), Log Warn plain_make_warning []]))
   \<and> (\<not> is_bsd sys \<and> popen sys tr (make_call ''make'' args input kwargs) \<noteq> OSErr ENOENT \<longrightarrow>
         exec_make sys (CmdList args) silent input kwargs tr =
           exec_process sys (CmdList (''make'' # args)) silent False input kwargs tr)"
  by (simp add: makes_def exec_make_unfold last_make_def spawned_exec_process spawned_append
        spawned_simps make_call_def)

lemma is_bsd_sys_bsd: "is_bsd (sys_bsd g)"
  by (simp add: is_bsd_def sys_bsd_def startswith_def)

lemma not_bsd_sys_prebuilt: "\<not> is_bsd sys_prebuilt"
  by (simp add: is_bsd_def sys_prebuilt_def startswith_def)

theorem exec_make_candidates_witness:
  "spawned (snd (exec_make (sys_bsd True) (CmdList [''clean'']) True None no_kwargs [])) =
     [CmdList [''gmake'', ''clean'']]
   \<and> exec_make (sys_bsd True) (CmdList [''clean'']) True None no_kwargs [] =
       exec_process (sys_bsd True) (CmdList [''gmake'', ''clean'']) True False None no_kwargs []
   \<and> spawned (snd (exec_make (sys_bsd False) (CmdList [''clean'']) True None no_kwargs [])) =
       [CmdList [''gmake'', ''clean''], CmdList [''make'', ''clean'']]
   \<and> exec_make (sys_bsd False) (CmdList [''clean'']) True None no_kwargs [] =
       exec_process (sys_bsd False) (CmdList [''make'', ''clean'']) True False None no_kwargs
         [Spawn (make_call ''gmake'' [''clean''] None no_kwargs), Log Warn plain_make_warning []]
   \<and> spawned (snd (exec_make sys_prebuilt (CmdList [''clean'']) True None no_kwargs [])) =
       [CmdList [''make'', ''clean'']]
   \<and> exec_make sys_prebuilt (CmdList [''clean'']) True None no_kwargs [] =
       exec_process sys_prebuilt (CmdList [''make'', ''clean'']) True False None no_kwargs []"
proof -
  have g: "popen (sys_bsd True) [] (make_call ''gmake'' [''clean''] None no_kwargs) \<noteq> OSErr ENOENT"
    by (simp add: sys_bsd_def)
  have ng: "popen (sys_bsd False) [] (make_call ''gmake'' [''clean''] None no_kwargs) = OSErr ENOENT"
    by (simp add: sys_bsd_def make_call_def cmd_first_def)
  have m: "popen (sys_bsd False)
             [Spawn (make_call ''gmake'' [''clean''] None no_kwargs), Log Warn plain_make_warning []]
             (make_call ''make'' [''clean''] None no_kwargs) \<noteq> OSErr ENOENT"
    by (simp add: sys_bsd_def make_call_def cmd_first_def)
  have p: "popen sys_prebuilt [] (make_call ''make'' [''clean''] None no_kwargs) \<noteq> OSErr ENOENT"
    by (simp add: sys_prebuilt_def)
  show ?thesis
    using exec_make_candidates [of "sys_bsd True" "[''clean'']" True None no_kwargs "[]"]
          exec_make_candidates [of "sys_bsd False" "[''clean'']" True None no_kwargs "[]"]
          exec_make_candidates [of sys_prebuilt "[''clean'']" True None no_kwargs "[]"]
          g ng m p is_bsd_sys_bsd not_bsd_sys_prebuilt
    by (simp add: spawned_simps spawned_exec_process spawned_append make_call_def)
qed


section \<open>Missing tools\<close>

lemma exec_process_uncaught_not_present:
  "fst (exec_process sys c silent False input kwargs tr) \<noteq> Inl (DistutilsError (not_present_msg t))"
  by (simp add: exec_process_def Let_def return_value_msg_def not_present_msg_def dquote_def
        split: outcome.splits)

lemma exec_process_uncaught_enoent:
  "popen sys tr \<lparr>pc_args = c, pc_stdin_pipe = True, pc_input = input, pc_kwargs = kwargs\<rparr>
     \<noteq> OSErr ENOENT
   \<Longrightarrow> fst (exec_process sys c silent False input kwargs tr) \<noteq> Inl (OSError ENOENT)"
  by (auto simp add: exec_process_def Let_def split: outcome.splits)

lemma last_make_not_present:
  "fst (last_make sys args silent input kwargs tr) = Inl (DistutilsError (not_present_msg ''make''))
     \<longleftrightarrow> popen sys tr (make_call ''make'' args input kwargs) = OSErr ENOENT"
  by (simp add: last_make_def exec_process_uncaught_not_present)

lemma last_make_no_enoent:
  "fst (last_make sys args silent input kwargs tr) \<noteq> Inl (OSError ENOENT)"
  using exec_process_uncaught_enoent [of sys tr "CmdList (''make'' # args)" input kwargs silent]
  by (simp add: last_make_def make_call_def)

text \<open>
  C5, as amended. A command line given as a list and run through \<open>exec_process\<close> with
  \<open>catch_enoent\<close> left on: when the OS reports ENOENT the error raised is
  \<open>DistutilsError('"<tool>" is not present on this system')\<close>, naming the first element
  of the command line. \<open>exec_make\<close> raises \<open>'"make" is not present on this system'\<close>
  exactly when every candidate was attempted and reported missing, and never lets the
  ENOENT \<open>OSError\<close> out.
\<close>

theorem missing_tool_message:
  "(popen sys tr \<lparr>pc_args = CmdList (tool # args), pc_stdin_pipe = True, pc_input = input,
                   pc_kwargs = kwargs\<rparr> = OSErr ENOENT \<longrightarrow>
      exec_process sys (CmdList (tool # args)) silent True input kwargs tr =
        (Inl (DistutilsError ([dquote] @ tool @ [dquote] @ '' is not present on this system'')),
         tr @ [Spawn \<lparr>pc_args = CmdList (tool # args), pc_stdin_pipe = True, pc_input = input,
                      pc_kwargs = kwargs\<rparr>]))
   \<and> (fst (exec_make sys (CmdList args) silent input kwargs tr) =
         Inl (DistutilsError ([dquote] @ ''make'' @ [dquote] @ '' is not present on this system''))
       \<longleftrightarrow>
       (if is_bsd sys then
          popen sys tr (make_call ''gmake'' args input kwargs) = OSErr ENOENT
          \<and> popen sys (tr @ [Spawn (make_call ''gmake'' args input kwargs),
                               Log Warn plain_make_warning []])
               (make_call ''make'' args input kwargs) = OSErr ENOENT
        else popen sys tr (make_call ''make'' args input kwargs) = OSErr ENOENT))
   \<and> fst (exec_make sys (CmdList args) silent input kwargs tr) \<noteq> Inl (OSError ENOENT)"
proof (intro conjI)
  show "popen sys tr \<lparr>pc_args = CmdList (tool # args), pc_stdin_pipe = True, pc_input = input,
                   pc_kwargs = kwargs\<rparr> = OSErr ENOENT \<longrightarrow>
      exec_process sys (CmdList (tool # args)) silent True input kwargs tr =
        (Inl (DistutilsError ([dquote] @ tool @ [dquote] @ '' is not present on this system'')),
         tr @ [Spawn \<lparr>pc_args = CmdList (tool # args), pc_stdin_pipe = True, pc_input = input,
                      pc_kwargs = kwargs\<rparr>])"
    by (simp add: exec_process_def Let_def cmd_first_def not_present_msg_def)
  have np: "[dquote] @ ''make'' @ [dquote] @ '' is not present on this system'' = not_present_msg ''make''"
    by (simp add: not_present_msg_def)
  show "fst (exec_make sys (CmdList args) silent input kwargs tr) =
         Inl (DistutilsError ([dquote] @ ''make'' @ [dquote] @ '' is not present on this system''))
       \<longleftrightarrow>
       (if is_bsd sys then
          popen sys tr (make_call ''gmake'' args input kwargs) = OSErr ENOENT
          \<and> popen sys (tr @ [Spawn (make_call ''gmake'' args input kwargs),
                               Log Warn plain_make_warning []])
               (make_call ''make'' args input kwargs) = OSErr ENOENT
        else popen sys tr (make_call ''make'' args input kwargs) = OSErr ENOENT)"
    unfolding np
    by (simp add: exec_make_unfold last_make_not_present exec_process_uncaught_not_present)
  show "fst (exec_make sys (CmdList args) silent input kwargs tr) \<noteq> Inl (OSError ENOENT)"
    using exec_process_uncaught_enoent [of sys tr "CmdList (''gmake'' # args)" input kwargs silent]
    by (simp add: exec_make_unfold last_make_no_enoent make_call_def)
qed

theorem missing_tool_message_witness:
  "exec_process sys_no_tools (CmdList [''vcbuild.bat'', ''clean'']) True True None no_kwargs [] =
     (Inl (DistutilsError ([dquote] @ ''vcbuild.bat'' @ [dquote] @ '' is not present on this system'')),
      [Spawn \<lparr>pc_args = CmdList [''vcbuild.bat'', ''clean''], pc_stdin_pipe = True,
              pc_input = None, pc_kwargs = no_kwargs\<rparr>])
   \<and> fst (exec_make sys_no_tools (CmdList [''libcares.a'']) True None no_kwargs []) =
       Inl (DistutilsError ([dquote] @ ''make'' @ [dquote] @ '' is not present on this system''))
   \<and> fst (exec_make (sys_bsd False) (CmdList [''libcares.a'']) True None no_kwargs []) = Inr []"
  using missing_tool_message
          [of sys_no_tools "[]" "''vcbuild.bat''" "[''clean'']" None no_kwargs True]
        missing_tool_message
          [of sys_no_tools "[]" "''vcbuild.bat''" "[''libcares.a'']" None no_kwargs True]
  by (simp add: sys_no_tools_def is_bsd_def startswith_def exec_make_unfold last_make_def
        make_call_def sys_bsd_def cmd_first_def exec_process_def ENOENT_def)

text \<open>
  The claim as stated fails for the commands that do not go through \<open>exec_process\<close>:
  \<open>call\<close> runs pkg-config with \<open>Popen\<close> directly. When every \<open>Popen\<close> reports ENOENT, a
  system-library build ends in \<open>SystemExit('Error: libcares >= 1.11 not found')\<close> and
  \<open>pkg_config_parse\<close> lets the \<open>OSError\<close> itself out.
\<close>

theorem missing_pkg_config_counterexample:
  "popen sys_no_tools [] \<lparr>pc_args = CmdStr (version_check_command ''libcares'' ''1.11''),
                            pc_stdin_pipe = False, pc_input = None, pc_kwargs = shell_kwargs\<rparr>
     = OSErr ENOENT
   \<and> fst (build_extensions sys_no_tools system_self []) =
       Inl (SystemExit (PStr ''Error: libcares >= 1.11 not found''))
   \<and> fst (pkg_config_parse sys_no_tools ''--libs-only-l'' ''libcares'' []) = Inl (OSError ENOENT)"
  by (simp add: sys_no_tools_def build_extensions_def system_self_def system_libcares_def
        and_then_def pkg_config_version_check_def pkg_config_parse_def call_def Let_def
        version_not_found_msg_def)

text \<open>
  A command line given as one string (the \<open>vcbuild.bat\<close> call sites): \<open>cmdline[0]\<close> is
  its first character.
\<close>

lemma exec_process_str_cmdline_enoent:
  "fst (exec_process sys_no_tools (CmdStr ''cmd.exe /C vcbuild.bat'') True True None
          \<lparr>cwd = Some ''deps/c-ares'', env = None, shell = True\<rparr> []) =
     Inl (DistutilsError ([dquote] @ ''c'' @ [dquote] @ '' is not present on this system''))"
  by (simp add: exec_process_def sys_no_tools_def cmd_first_def not_present_msg_def)


section \<open>build\_cares\<close>

text \<open>
  C2. When the clean flag is unset and the artifact \<open>self.cares_lib\<close> exists,
  \<open>build_cares\<close> only tests the path and logs: no process is started, neither the
  build tool nor the cleaning command.
\<close>

theorem build_cares_prebuilt:
  assumes "cares_clean_compile self = 0"
    and "cares_lib self = Some lib"
    and "path_exists sys tr lib"
  shows "build_cares sys self tr =
           (Inr (), tr @ [PathExists lib, Log Info ''No need to build c-ares.'' []])
         \<and> spawned (snd (build_cares sys self tr)) = spawned tr"
  using assms by (simp add: build_cares_def and_then_def spawned_append spawned_simps)

theorem build_cares_prebuilt_witness:
  "build_cares sys_prebuilt (bundled_self 0) [] =
     (Inr (), [PathExists ''deps/c-ares/libcares.a'', Log Info ''No need to build c-ares.'' []])
   \<and> spawned (snd (build_cares sys_prebuilt (bundled_self 0) [])) = []"
  using build_cares_prebuilt [of "bundled_self 0" "''deps/c-ares/libcares.a''" sys_prebuilt "[]"]
  by (simp add: bundled_self_def sys_prebuilt_def spawned_simps)

lemma exec_process_trace:
  "\<exists>rest. snd (exec_process sys c silent ce input kwargs tr) =
      tr @ Spawn \<lparr>pc_args = c, pc_stdin_pipe = True, pc_input = input, pc_kwargs = kwargs\<rparr> # rest"
  by (simp add: exec_process_def Let_def split: outcome.splits option.splits)

lemma last_make_trace:
  "\<exists>rest. snd (last_make sys args silent input kwargs tr) =
      tr @ Spawn (make_call ''make'' args input kwargs) # rest"
  using exec_process_trace [of sys "CmdList (''make'' # args)" silent False input kwargs tr]
  by (simp add: last_make_def make_call_def)

lemma exec_make_trace:
  "\<exists>rest. snd (exec_make sys (CmdList args) silent input kwargs tr) =
      tr @ Spawn (make_call (if is_bsd sys then ''gmake'' else ''make'') args input kwargs) # rest"
proof (cases "is_bsd sys")
  case True
  show ?thesis
  proof (cases "popen sys tr (make_call ''gmake'' args input kwargs) = OSErr ENOENT")
    case missing: True
    obtain rest where "snd (last_make sys args silent input kwargs
             (tr @ [Spawn (make_call ''gmake'' args input kwargs), Log Warn plain_make_warning []])) =
         (tr @ [Spawn (make_call ''gmake'' args input kwargs), Log Warn plain_make_warning []])
           @ Spawn (make_call ''make'' args input kwargs) # rest"
      using last_make_trace by blast
    with True missing show ?thesis by (simp add: exec_make_unfold)
  next
    case False
    with True show ?thesis
      using exec_process_trace [of sys "CmdList (''gmake'' # args)" silent False input kwargs tr]
      by (simp add: exec_make_unfold make_call_def)
  qed
next
  case False
  then show ?thesis using last_make_trace [of sys args silent input kwargs tr]
    by (simp add: exec_make_unfold)
qed

lemma snd_discard: "snd (discard r) = snd r"
  by (simp add: discard_def split: prod.splits sum.splits)

lemma clean_trace:
  "\<exists>rest. snd (clean sys msvc tr) =
     tr @ Spawn \<lparr>pc_args = (if msvc then CmdStr ''cmd.exe /C vcbuild.bat clean''
                               else CmdList [if is_bsd sys then ''gmake'' else ''make'', ''clean'']),
                   pc_stdin_pipe = True, pc_input = None,
                   pc_kwargs = \<lparr>cwd = Some (cares_dir sys), env = None, shell = msvc\<rparr>\<rparr> # rest"
proof (cases msvc)
  case True
  then show ?thesis
    using exec_process_trace [of sys "CmdStr ''cmd.exe /C vcbuild.bat clean''" True True None
            "\<lparr>cwd = Some (cares_dir sys), env = None, shell = True\<rparr>" tr]
    by (simp add: clean_def snd_discard)
next
  case False
  then show ?thesis
    using exec_make_trace [of sys "[''clean'']" True None
            "\<lparr>cwd = Some (cares_dir sys), env = None, shell = False\<rparr>" tr]
    by (simp add: clean_def snd_discard make_call_def)
qed

lemma build_trace: "\<exists>rest. snd (build sys msvc tr) = tr @ rest"
proof (cases msvc)
  case True
  then show ?thesis
    using exec_process_trace [of sys "CmdStr ''cmd.exe /C vcbuild.bat''" True True None
            "\<lparr>cwd = Some (cares_dir sys), env = Some (build_env sys), shell = True\<rparr>"
            "tr @ [Log Info ''Building c-ares...'' []]"]
    by (auto simp add: build_def snd_discard Let_def)
next
  case False
  then show ?thesis
    using exec_make_trace [of sys "[''libcares.a'']" True None
            "\<lparr>cwd = Some (cares_dir sys), env = Some (build_env sys), shell = False\<rparr>"
            "tr @ [Log Info ''Building c-ares...'' []]"]
    by (auto simp add: build_def snd_discard Let_def)
qed

lemma check_and_build_trace:
  "\<exists>rest. snd (case lib_opt of
                None \<Rightarrow> (Inl AttributeError, tr1)
              | Some lib \<Rightarrow>
                  if \<not> path_exists sys tr1 lib then
                    build sys msvc
                      (tr1 @ [PathExists lib, Log Info ''c-ares needs to be compiled.'' []])
                  else
                    (Inr (), tr1 @ [PathExists lib, Log Info ''No need to build c-ares.'' []]))
     = tr1 @ rest"
proof (cases lib_opt)
  case None
  then show ?thesis by simp
next
  case (Some lib)
  obtain rest where "snd (build sys msvc
                      (tr1 @ [PathExists lib, Log Info ''c-ares needs to be compiled.'' []])) =
     (tr1 @ [PathExists lib, Log Info ''c-ares needs to be compiled.'' []]) @ rest"
    using build_trace by blast
  with Some show ?thesis by simp
qed

text \<open>
  C3. When the clean flag is set, the first thing \<open>build_cares\<close> does is to start the
  cleaning command (\<open>vcbuild.bat clean\<close> under MSVC, otherwise the first make candidate
  with \<open>clean\<close>), whatever the existence test would answer: the existence test and
  everything else come after it in the trace.
\<close>

theorem build_cares_clean_first:
  assumes "cares_clean_compile self \<noteq> 0"
  shows "\<exists>rest. snd (build_cares sys self tr) =
           tr @ Spawn \<lparr>pc_args = (if compiler_type (compiler self) = ''msvc''
                                    then CmdStr ''cmd.exe /C vcbuild.bat clean''
                                    else CmdList [if is_bsd sys then ''gmake'' else ''make'',
                                                  ''clean'']),
                         pc_stdin_pipe = True, pc_input = None,
                         pc_kwargs = \<lparr>cwd = Some (cares_dir sys), env = None,
                                       shell = (compiler_type (compiler self) = ''msvc'')\<rparr>\<rparr>
                # rest"
proof -
  let ?msvc = "compiler_type (compiler self) = ''msvc''"
  let ?c = "\<lparr>pc_args = (if ?msvc then CmdStr ''cmd.exe /C vcbuild.bat clean''
                          else CmdList [if is_bsd sys then ''gmake'' else ''make'', ''clean'']),
              pc_stdin_pipe = True, pc_input = None,
              pc_kwargs = \<lparr>cwd = Some (cares_dir sys), env = None, shell = ?msvc\<rparr>\<rparr>"
  let ?chk = "\<lambda>tr1. case cares_lib self of
                None \<Rightarrow> (Inl AttributeError, tr1)
              | Some lib \<Rightarrow>
                  if \<not> path_exists sys tr1 lib then
                    build sys ?msvc
                      (tr1 @ [PathExists lib, Log Info ''c-ares needs to be compiled.'' []])
                  else
                    (Inr (), tr1 @ [PathExists lib, Log Info ''No need to build c-ares.'' []])"
  obtain r1 where r1: "snd (clean sys ?msvc tr) = tr @ Spawn ?c # r1"
    using clean_trace [of sys ?msvc tr] by blast
  obtain res tr1 where cl: "clean sys ?msvc tr = (res, tr1)"
    by (cases "clean sys ?msvc tr") blast
  from r1 cl have tr1: "tr1 = tr @ Spawn ?c # r1" by simp
  have bc: "build_cares sys self tr = (case res of Inl e \<Rightarrow> (Inl e, tr1) | Inr x \<Rightarrow> ?chk tr1)"
    using assms cl by (simp add: build_cares_def and_then_def)
  show ?thesis
  proof (cases res)
    case (Inl e)
    with bc have "snd (build_cares sys self tr) = tr1" by simp
    with tr1 show ?thesis by blast
  next
    case (Inr u)
    obtain r2 where "snd (?chk tr1) = tr1 @ r2"
      using check_and_build_trace [where lib_opt = "cares_lib self" and ?tr1.0 = tr1 and sys = sys and msvc = ?msvc] by blast
    with bc Inr have "snd (build_cares sys self tr) = tr1 @ r2" by simp
    with tr1 have "snd (build_cares sys self tr) = tr @ Spawn ?c # (r1 @ r2)" by simp
    then show ?thesis by blast
  qed
qed

theorem build_cares_clean_first_witness:
  "snd (build_cares sys_prebuilt (bundled_self 1) []) =
     [Spawn \<lparr>pc_args = CmdList [''make'', ''clean''], pc_stdin_pipe = True, pc_input = None,
             pc_kwargs = \<lparr>cwd = Some ''deps/c-ares'', env = None, shell = False\<rparr>\<rparr>,
      PathExists ''deps/c-ares/libcares.a'', Log Info ''No need to build c-ares.'' []]"
  using build_cares_clean_first [of "bundled_self 1" sys_prebuilt "[]"]
  by (simp add: bundled_self_def sys_prebuilt_def unix_compiler_def build_cares_def and_then_def
        clean_def exec_make_unfold is_bsd_def startswith_def last_make_def make_call_def
        exec_process_def discard_def cares_dir_def path_join_def ENOENT_def)


section \<open>The environment of the build\<close>

lemma spawns_discard: "spawns (snd (discard r)) = spawns (snd r)"
  by (simp add: discard_def split: prod.splits sum.splits)

text \<open>
  C8. In the non-MSVC build the environment handed to every make candidate is the
  process environment with \<open>CFLAGS\<close> replaced: \<open>-fPIC\<close> alone when \<open>CFLAGS\<close> was unset
  or empty, \<open>-fPIC\<close>, a space and the previous value otherwise; every other variable is
  as it was.
\<close>

theorem build_environment:
  "map_of (build_env sys) ''CFLAGS'' =
     Some (case map_of (environ sys) ''CFLAGS'' of
             None \<Rightarrow> ''-fPIC''
           | Some v \<Rightarrow> (if v = [] then ''-fPIC'' else ''-fPIC '' @ v))
   \<and> (\<forall>k. k \<noteq> ''CFLAGS'' \<longrightarrow> map_of (build_env sys) k = map_of (environ sys) k)
   \<and> spawns (snd (build sys False tr)) =
       spawns tr @
         map (\<lambda>mk. \<lparr>pc_args = CmdList [mk, ''libcares.a''], pc_stdin_pipe = True, pc_input = None,
                     pc_kwargs = \<lparr>cwd = Some (cares_dir sys), env = Some (build_env sys),
                                   shell = False\<rparr>\<rparr>)
           (if is_bsd sys then
              (if popen sys (tr @ [Log Info ''Building c-ares...'' []])
                    (make_call ''gmake'' [''libcares.a''] None
                       \<lparr>cwd = Some (cares_dir sys), env = Some (build_env sys), shell = False\<rparr>)
                  = OSErr ENOENT
               then [''gmake'', ''make''] else [''gmake''])
            else [''make''])"
proof (intro conjI)
  show "map_of (build_env sys) ''CFLAGS'' =
     Some (case map_of (environ sys) ''CFLAGS'' of
             None \<Rightarrow> ''-fPIC''
           | Some v \<Rightarrow> (if v = [] then ''-fPIC'' else ''-fPIC '' @ v))"
    by (simp add: build_env_def Let_def update_conv' truthy_def split: option.splits)
  show "\<forall>k. k \<noteq> ''CFLAGS'' \<longrightarrow> map_of (build_env sys) k = map_of (environ sys) k"
    by (simp add: build_env_def Let_def update_conv')
  show "spawns (snd (build sys False tr)) =
       spawns tr @
         map (\<lambda>mk. \<lparr>pc_args = CmdList [mk, ''libcares.a''], pc_stdin_pipe = True, pc_input = None,
                     pc_kwargs = \<lparr>cwd = Some (cares_dir sys), env = Some (build_env sys),
                                   shell = False\<rparr>\<rparr>)
           (if is_bsd sys then
              (if popen sys (tr @ [Log Info ''Building c-ares...'' []])
                    (make_call ''gmake'' [''libcares.a''] None
                       \<lparr>cwd = Some (cares_dir sys), env = Some (build_env sys), shell = False\<rparr>)
                  = OSErr ENOENT
               then [''gmake'', ''make''] else [''gmake''])
            else [''make''])"
    by (simp add: build_def Let_def spawns_discard spawns_exec_make spawns_append spawns_simps
          make_call_def)
qed

theorem build_environment_witness:
  "map_of (build_env sys_failing) ''CFLAGS'' = Some ''-fPIC -O2''
   \<and> map_of (build_env sys_failing) ''HOME'' = Some ''/root''
   \<and> map_of (build_env sys_prebuilt) ''CFLAGS'' = Some ''-fPIC''
   \<and> spawns (snd (build sys_failing False [])) =
       [\<lparr>pc_args = CmdList [''make'', ''libcares.a''], pc_stdin_pipe = True, pc_input = None,
         pc_kwargs = \<lparr>cwd = Some ''deps/c-ares'',
                       env = Some [(''HOME'', ''/root''), (''CFLAGS'', ''-fPIC -O2'')],
                       shell = False\<rparr>\<rparr>]"
proof -
  have nb: "\<not> is_bsd sys_failing"
    by (simp add: is_bsd_def sys_failing_def startswith_def)
  have e: "build_env sys_failing = [(''HOME'', ''/root''), (''CFLAGS'', ''-fPIC -O2'')]"
    by (simp add: build_env_def sys_failing_def truthy_def)
  have d: "cares_dir sys_failing = ''deps/c-ares''"
    by (simp add: cares_dir_def path_join_def sys_failing_def)
  have h: "map_of (environ sys_failing) ''HOME'' = Some ''/root''"
    by (simp add: sys_failing_def)
  show ?thesis
    using build_environment [of sys_failing "[]"] build_environment [of sys_prebuilt "[]"] nb h
    by (simp add: e d spawns_simps) (simp add: sys_failing_def sys_prebuilt_def)
qed


section \<open>The pkg-config version check\<close>




section \<open>The lists taken from pkg-config\<close>

lemma pkg_config_parse_tokens:
  assumes "popen sys tr \<lparr>pc_args = CmdStr (''pkg-config '' @ opt @ '' '' @ pkg),
                           pc_stdin_pipe = False, pc_input = None, pc_kwargs = shell_kwargs\<rparr>
             = Exited 0 out err"
  shows "fst (pkg_config_parse sys opt pkg tr) = Inr (map (py_lstrip (last_two opt)) (py_split (python3 sys) out))"
  using assms by (simp add: pkg_config_parse_def call_def Let_def)

text \<open>
  \<open>lstrip\<close> removes exactly the option when what follows it does not begin with one of
  the option's own characters.
\<close>

lemma py_lstrip_option:
  assumes "set p \<subseteq> set chars" and "rest = [] \<or> hd rest \<notin> set chars"
  shows "py_lstrip chars (p @ rest) = rest"
proof -
  have "dropWhile (\<lambda>c. c \<in> set chars) (p @ rest) = dropWhile (\<lambda>c. c \<in> set chars) rest"
    using assms(1) by (simp add: dropWhile_append subset_iff)
  also have "\<dots> = rest"
    using assms(2) by (cases rest) auto
  finally show ?thesis by (simp add: py_lstrip_def)
qed

text \<open>
  C7 at a concrete run. pkg-config prints \<open>-lcares -llber\<close> for the library names. The
  lists keep the order of the tokens, but \<open>x.lstrip('-l')\<close> removes every leading \<open>-\<close>
  and \<open>l\<close>, so the second library handed to the compiler driver is \<open>ber\<close>, not
  \<open>lber\<close>.
\<close>

theorem pkg_config_lstrip_strips_characters:
  "py_split (python3 sys_lber) (''-lcares -llber'' @ [newline]) = [''-lcares'', ''-llber'']
   \<and> compiler_calls (snd (snd (build_extensions sys_lber system_self []))) =
     [AddLibrary (PList [''cares'', ''ber'']),
      AddLibraryDir (PList [''/usr/lib'']),
      SetIncludeDirs [''/usr/include/cares'', ''/usr/include'', ''deps/c-ares/src''],
      SetRuntimeLibraryDirs [''/usr/lib''],
      AddIncludeDir ''deps/c-ares/src'',
      AddLibrary (PStr ''rt'')]"
  by (simp add: build_extensions_def system_libcares_def and_then_def pkg_config_version_check_def
        pkg_config_parse_def call_def Let_def sys_lber_def sys_pkg_config_def system_self_def
        version_check_command_def one_extension_def unix_compiler_def platform_libs_def
        compiler_calls_def py_split_def is_space_def newline_def py_lstrip_def last_two_def
        cares_dir_def path_join_def shell_kwargs_def startswith_def)


section \<open>build\_extensions\<close>

lemma and_then_extends:
  assumes "\<exists>rest. snd r = tr @ rest"
    and "\<And>x tr1. \<exists>rest. snd (f x tr1) = tr1 @ rest"
  shows "\<exists>rest. snd (and_then r f) = tr @ rest"
proof -
  obtain res tr1 where r: "r = (res, tr1)" by (cases r) blast
  from assms(1) r obtain r1 where tr1: "tr1 = tr @ r1" by auto
  show ?thesis
  proof (cases res)
    case (Inl e)
    with r tr1 show ?thesis by (simp add: and_then_def)
  next
    case (Inr x)
    obtain r2 where "snd (f x tr1) = tr1 @ r2" using assms(2) by blast
    with Inr r tr1 have "snd (and_then r f) = tr @ (r1 @ r2)" by (simp add: and_then_def)
    then show ?thesis by blast
  qed
qed

lemma call_extends: "\<exists>rest. snd (call sys command opt tr) = tr @ rest"
  by (simp add: call_def Let_def split: outcome.splits)

lemma pkg_config_version_check_extends:
  "\<exists>rest. snd (pkg_config_version_check sys pkg version tr) = tr @ rest"
proof -
  obtain res tr1 where c: "call sys (version_check_command pkg version) None tr = (res, tr1)"
    by (cases "call sys (version_check_command pkg version) None tr") blast
  obtain r1 where "tr1 = tr @ r1"
    using call_extends [of sys "version_check_command pkg version" None tr] c by auto
  with c show ?thesis
    by (cases res) (simp_all add: pkg_config_version_check_def)
qed

lemma pkg_config_parse_extends:
  "\<exists>rest. snd (pkg_config_parse sys opt pkg tr) = tr @ rest"
proof -
  let ?cmd = "''pkg-config '' @ opt @ '' '' @ pkg"
  obtain res tr1 where c: "call sys ?cmd (Some (last_two opt)) tr = (res, tr1)"
    by (cases "call sys ?cmd (Some (last_two opt)) tr") blast
  obtain r1 where "tr1 = tr @ r1"
    using call_extends [of sys ?cmd "Some (last_two opt)" tr] c by auto
  with c show ?thesis
    by (cases res) (simp_all add: pkg_config_parse_def split: option.splits)
qed

lemma system_libcares_extends: "\<exists>rest. snd (system_libcares sys self tr) = tr @ rest"
  unfolding system_libcares_def
  by (intro and_then_extends pkg_config_version_check_extends pkg_config_parse_extends)
     (simp add: Let_def)

lemma build_cares_extends: "\<exists>rest. snd (build_cares sys self tr) = tr @ rest"
  unfolding build_cares_def Let_def
proof (rule and_then_extends)
  show "\<exists>rest. snd (if cares_clean_compile self \<noteq> 0
                     then clean sys (compiler_type (compiler self) = ''msvc'') tr
                     else (Inr (), tr)) = tr @ rest"
    using clean_trace [of sys "compiler_type (compiler self) = ''msvc''" tr] by auto
next
  fix x :: unit and tr1
  show "\<exists>rest. snd (case cares_lib self of
                None \<Rightarrow> (Inl AttributeError, tr1)
              | Some lib \<Rightarrow>
                  if \<not> path_exists sys tr1 lib then
                    build sys (compiler_type (compiler self) = ''msvc'')
                      (tr1 @ [PathExists lib, Log Info ''c-ares needs to be compiled.'' []])
                  else
                    (Inr (), tr1 @ [PathExists lib, Log Info ''No need to build c-ares.'' []]))
     = tr1 @ rest"
    by (rule check_and_build_trace)
qed


lemma linux_not_win32: "platform sys = ''win32'' \<Longrightarrow> \<not> startswith (platform sys) ''linux''"
  by (simp add: startswith_def)

lemma win32_not_linux: "startswith (platform sys) ''linux'' \<Longrightarrow> platform sys \<noteq> ''win32''"
  by (auto simp add: startswith_def)

lemma system_libcares_extendsD:
  "system_libcares sys self tr = (r, t) \<Longrightarrow> \<exists>rest. t = tr @ rest"
  using system_libcares_extends [of sys self tr] by simp

lemma build_cares_extendsD:
  "build_cares sys self tr = (r, t) \<Longrightarrow> \<exists>rest. t = tr @ rest"
  using build_cares_extends [of sys self tr] by simp

text \<open>What a run of \<open>build_extensions\<close> that reaches the standard procedure has done.\<close>

lemma build_extensions_success:
  assumes "build_extensions sys self tr = (Inr (), self', tr')"
  shows "(\<exists>ext exts.
           extensions self = ext # exts
         \<and> extensions self' =
             ext\<lparr>extra_objects :=
                   [path_join (sep sys) (cares_dir sys)
                      (if compiler_type (compiler self) = ''msvc'' then ''cares.lib''
                       else ''libcares.a'')],
                 extra_link_args :=
                   (if platform sys = ''win32'' \<and> compiler_type (compiler self) = ''msvc''
                    then [''/NODEFAULTLIB:libcmt''] else extra_link_args ext)\<rparr> # exts)
         \<and> compiler self' =
             (if compiler_type (compiler self) = ''mingw32''
              then (compiler self)\<lparr>dll_libraries :=
                     filter (\<lambda>lib. \<not> startswith lib ''msvcr'') (dll_libraries (compiler self))\<rparr>
              else compiler self)
         \<and> take (length tr) (butlast tr') = tr
         \<and> tr' \<noteq> []
         \<and> last tr' = BaseBuildExtensions
         \<and> CompilerCall (AddIncludeDir (path_join (sep sys) (cares_dir sys) ''src''))
             \<in> set (drop (length tr) (butlast tr'))"
  using assms
  by (auto simp add: build_extensions_def platform_libs_def Let_def linux_not_win32 win32_not_linux
             butlast_append
           split: prod.splits sum.splits list.splits if_splits
           dest!: system_libcares_extendsD build_cares_extendsD)


section \<open>The Windows toolchains\<close>

text \<open>
  C9. For a run of \<open>build_extensions\<close> that reaches the standard procedure: under
  \<open>mingw32\<close> the compiler's \<open>dll_libraries\<close> is the old list without the entries that
  start with \<open>msvcr\<close>, the others in their order; under \<open>msvc\<close> on \<open>win32\<close> the first
  extension's \<open>extra_link_args\<close> is \<open>['/NODEFAULTLIB:libcmt']\<close>.
\<close>

theorem windows_toolchain_runtime:
  assumes "fst (build_extensions sys self tr) = Inr ()"
  shows "(compiler_type (compiler self) = ''mingw32'' \<longrightarrow>
            dll_libraries (compiler (fst (snd (build_extensions sys self tr)))) =
              filter (\<lambda>lib. \<not> startswith lib ''msvcr'') (dll_libraries (compiler self)))
       \<and> (compiler_type (compiler self) = ''msvc'' \<and> platform sys = ''win32'' \<longrightarrow>
            extensions (fst (snd (build_extensions sys self tr))) \<noteq> []
          \<and> extra_link_args (hd (extensions (fst (snd (build_extensions sys self tr))))) =
              [''/NODEFAULTLIB:libcmt''])"
proof -
  obtain self' tr' where "build_extensions sys self tr = (Inr (), self', tr')"
    using assms by (cases "build_extensions sys self tr") auto
  then show ?thesis
    using build_extensions_success [of sys self tr self' tr'] by auto
qed

lemma build_extensions_windows:
  "ctype = ''msvc'' \<or> ctype = ''mingw32'' \<Longrightarrow>
   fst (build_extensions sys_win32 (windows_self ctype) []) = Inr ()"
  by (auto simp add: build_extensions_def windows_self_def sys_win32_def one_extension_def
        build_cares_def and_then_def platform_libs_def startswith_def Let_def)


theorem windows_toolchain_runtime_witness:
  "dll_libraries (compiler (fst (snd (build_extensions sys_win32 (windows_self ''mingw32'') [])))) =
     [''kernel32'', ''user32'']
   \<and> extra_link_args
        (hd (extensions (fst (snd (build_extensions sys_win32 (windows_self ''msvc'') []))))) =
       [''/NODEFAULTLIB:libcmt'']"
proof -
  have ok1: "fst (build_extensions sys_win32 (windows_self ''mingw32'') []) = Inr ()"
    by (simp add: build_extensions_windows)
  have ok2: "fst (build_extensions sys_win32 (windows_self ''msvc'') []) = Inr ()"
    by (simp add: build_extensions_windows)
  have t1: "compiler_type (compiler (windows_self ''mingw32'')) = ''mingw32''"
    by (simp add: windows_self_def)
  have t2: "compiler_type (compiler (windows_self ''msvc'')) = ''msvc'' \<and> platform sys_win32 = ''win32''"
    by (simp add: windows_self_def sys_win32_def)
  have f: "filter (\<lambda>lib. \<not> startswith lib ''msvcr'')
             (dll_libraries (compiler (windows_self ''mingw32''))) = [''kernel32'', ''user32'']"
    by (simp add: windows_self_def startswith_def)
  from windows_toolchain_runtime [OF ok1] t1 f
  have "dll_libraries (compiler (fst (snd (build_extensions sys_win32 (windows_self ''mingw32'') []))))
          = [''kernel32'', ''user32'']"
    by metis
  moreover from windows_toolchain_runtime [OF ok2] t2
  have "extra_link_args
          (hd (extensions (fst (snd (build_extensions sys_win32 (windows_self ''msvc'') []))))) =
        [''/NODEFAULTLIB:libcmt'']"
    by blast
  ultimately show ?thesis by blast
qed


section \<open>The artifact as an extra object\<close>

text \<open>
  C10. Every run of \<open>build_extensions\<close> that reaches the standard procedure, with the
  bundled library or with the system one, has set the first extension's \<open>extra_objects\<close>
  to the one path of the bundled artifact (\<open>cares.lib\<close> under MSVC, \<open>libcares.a\<close>
  otherwise, in \<open>deps/c-ares\<close>) and has added the include directory \<open>deps/c-ares/src\<close>
  before the call of the standard procedure, which is the last event.
\<close>

theorem build_extensions_attaches_artifact:
  assumes "fst (build_extensions sys self tr) = Inr ()"
  shows "extensions (fst (snd (build_extensions sys self tr))) \<noteq> []
       \<and> extra_objects (hd (extensions (fst (snd (build_extensions sys self tr))))) =
           [path_join (sep sys) (path_join (sep sys) ''deps'' ''c-ares'')
              (if compiler_type (compiler self) = ''msvc'' then ''cares.lib'' else ''libcares.a'')]
       \<and> (\<exists>mid. snd (snd (build_extensions sys self tr)) = tr @ mid @ [BaseBuildExtensions]
                \<and> CompilerCall
                     (AddIncludeDir
                        (path_join (sep sys) (path_join (sep sys) ''deps'' ''c-ares'') ''src''))
                    \<in> set mid)"
proof -
  obtain self' tr' where be: "build_extensions sys self tr = (Inr (), self', tr')"
    using assms by (cases "build_extensions sys self tr") auto
  note s = build_extensions_success [OF be]
  define pre where "pre = butlast tr'"
  define mid where "mid = drop (length tr) pre"
  from s have 1: "tr' = pre @ [BaseBuildExtensions]"
    unfolding pre_def by (metis append_butlast_last_id)
  from s have 2: "pre = tr @ mid"
    unfolding pre_def mid_def by (metis append_take_drop_id)
  from s have 3: "CompilerCall
                     (AddIncludeDir
                        (path_join (sep sys) (path_join (sep sys) ''deps'' ''c-ares'') ''src''))
                    \<in> set mid"
    unfolding pre_def mid_def by (simp add: cares_dir_def)
  from 1 2 have "tr' = tr @ mid @ [BaseBuildExtensions]" by simp
  with 3 have "\<exists>mid. tr' = tr @ mid @ [BaseBuildExtensions]
                \<and> CompilerCall
                     (AddIncludeDir
                        (path_join (sep sys) (path_join (sep sys) ''deps'' ''c-ares'') ''src''))
                    \<in> set mid"
    by blast
  with s be show ?thesis by (auto simp add: cares_dir_def)
qed

lemma build_extensions_lber_ok: "fst (build_extensions sys_lber system_self []) = Inr ()"
  by (simp add: build_extensions_def system_libcares_def and_then_def pkg_config_version_check_def
        pkg_config_parse_def call_def Let_def sys_lber_def sys_pkg_config_def system_self_def
        version_check_command_def one_extension_def unix_compiler_def platform_libs_def
        startswith_def)

theorem build_extensions_attaches_artifact_witness:
  "use_system_libcares system_self = 1
   \<and> extra_objects (hd (extensions (fst (snd (build_extensions sys_lber system_self []))))) =
       [''deps/c-ares/libcares.a'']
   \<and> last (snd (snd (build_extensions sys_lber system_self []))) = BaseBuildExtensions"
proof -
  have u: "use_system_libcares system_self = 1"
    by (simp add: system_self_def)
  have p: "path_join (sep sys_lber) (path_join (sep sys_lber) ''deps'' ''c-ares'')
             (if compiler_type (compiler system_self) = ''msvc'' then ''cares.lib''
              else ''libcares.a'') = ''deps/c-ares/libcares.a''"
    by (simp add: path_join_def sys_lber_def sys_pkg_config_def system_self_def unix_compiler_def)
  note t = build_extensions_attaches_artifact [OF build_extensions_lber_ok]
  from t p have "extra_objects (hd (extensions (fst (snd (build_extensions sys_lber system_self [])))))
                   = [''deps/c-ares/libcares.a'']"
    by metis
  moreover from t obtain mid where
    "snd (snd (build_extensions sys_lber system_self [])) = [] @ mid @ [BaseBuildExtensions]"
    by blast
  then have "last (snd (snd (build_extensions sys_lber system_self []))) = BaseBuildExtensions"
    by simp
  ultimately show ?thesis using u by blast
qed

end
